theory Spec2Isabelle
  imports Main "HOL-Library.Word" "HOL-Library.List_Lexorder" "HOL-Library.Multiset"
begin

unbundle bit_operations_syntax

section \<open>Bytes, slices and errors\<close>

text \<open>
  A Go byte slice is a list of 8-bit words.  Every slice is taken to be as long as its
  backing array (capacity = length), so that a slice expression \<^verbatim>\<open>b[lo:hi]\<close> panics
  exactly when \<^verbatim>\<open>lo <= hi <= len(b)\<close> fails.  A panic is the error value \<open>Panic\<close>;
  \<^verbatim>\<open>fmt.Errorf("decode: ...")\<close> is \<open>DecodeError\<close>; \<^verbatim>\<open>ErrNotFound\<close> is \<open>NotFound\<close>.

  Offsets into the encoded change-set are sums and products of non-negative numbers below
  \<open>2^40\<close>, so they are natural numbers here; \<open>findVal\<close> subtracts, and computes in \<open>int\<close>.
\<close>

type_synonym byte = "8 word"
type_synonym bytes = "byte list"

datatype error = Panic | DecodeError | NotFound

definition bindE :: "error + 'a \<Rightarrow> ('a \<Rightarrow> error + 'b) \<Rightarrow> error + 'b" where
  "bindE m f = (case m of Inl e \<Rightarrow> Inl e | Inr x \<Rightarrow> f x)"

definition slice :: "bytes \<Rightarrow> nat \<Rightarrow> nat \<Rightarrow> error + bytes" where
  "slice b lo hi =
     (if lo \<le> hi \<and> hi \<le> length b then Inr (take (hi - lo) (drop lo b)) else Inl Panic)"

definition sliceFrom :: "bytes \<Rightarrow> nat \<Rightarrow> error + bytes" where
  "sliceFrom b lo = slice b lo (length b)"

definition sliceI :: "bytes \<Rightarrow> int \<Rightarrow> int \<Rightarrow> error + bytes" where
  "sliceI b lo hi = (if 0 \<le> lo \<and> 0 \<le> hi then slice b (nat lo) (nat hi) else Inl Panic)"

definition indexI :: "bytes \<Rightarrow> int \<Rightarrow> error + byte" where
  "indexI b i = (if 0 \<le> i \<and> i < int (length b) then Inr (b ! nat i) else Inl Panic)"

subsection \<open>encoding/binary, big endian\<close>

primrec be_bytes :: "nat \<Rightarrow> nat \<Rightarrow> bytes" where
  "be_bytes 0 v = []"
| "be_bytes (Suc k) v = be_bytes k (v div 256) @ [of_nat (v mod 256)]"

definition be_nat :: "bytes \<Rightarrow> nat" where
  "be_nat bs = foldl (\<lambda>a x. a * 256 + unat x) 0 bs"

definition putUint16 :: "nat \<Rightarrow> bytes" where
  "putUint16 v = be_bytes 2 v"

definition putUint32 :: "nat \<Rightarrow> bytes" where
  "putUint32 v = be_bytes 4 v"

definition putUint64 :: "nat \<Rightarrow> bytes" where
  "putUint64 v = be_bytes 8 v"

text \<open>\<^verbatim>\<open>binary.BigEndian.UintNN(b[lo:lo+k])\<close>: the slice expression may panic, the read of a
  slice of exactly \<open>k\<close> bytes cannot.\<close>

definition uintAt :: "nat \<Rightarrow> bytes \<Rightarrow> nat \<Rightarrow> error + nat" where
  "uintAt k b lo = bindE (slice b lo (lo + k)) (\<lambda>s. Inr (be_nat s))"

definition uintAtI :: "nat \<Rightarrow> bytes \<Rightarrow> int \<Rightarrow> error + nat" where
  "uintAtI k b lo = bindE (sliceI b lo (lo + int k)) (\<lambda>s. Inr (be_nat s))"

section \<open>The storage change-set codec\<close>

subsection \<open>Constants and data\<close>

abbreviation (input) HashLength :: nat where "HashLength \<equiv> 32"
abbreviation (input) IncarnationLength :: nat where "IncarnationLength \<equiv> 8"

definition DefaultIncarnation :: "64 word" where
  "DefaultIncarnation = NOT 1"

text \<open>Modelled from the spec: the types \<^verbatim>\<open>Change\<close> and \<^verbatim>\<open>ChangeSet\<close> and the ordering
  \<^verbatim>\<open>sort.Sort\<close> uses on a change-set are declared outside the files at hand.  A change is a
  (Key, Value) pair of byte strings; a change-set is the sequence of its changes, sorted
  ascending by Key (bytewise, a proper prefix first) before encoding.\<close>

record Change =
  Key :: bytes
  Val :: bytes

type_synonym ChangeSet = "Change list"

definition sortChanges :: "ChangeSet \<Rightarrow> ChangeSet" where
  "sortChanges s = sort_key Key s"

subsection \<open>Width helpers\<close>

definition getNumOfBytesByLen :: "nat \<Rightarrow> nat" where
  "getNumOfBytesByLen n =
     (if n < 255 then 1 else if n < 65535 then 2 else if n < 4294967295 then 4 else 8)"

text \<open>\<open>writeKeyRow id row\<close> overwrites \<open>row\<close>; the model returns the new contents.\<close>

definition writeKeyRow :: "nat \<Rightarrow> bytes \<Rightarrow> error + bytes" where
  "writeKeyRow ident row =
     (if length row = 1 then Inr (be_bytes 1 ident)
      else if length row = 2 then Inr (putUint16 ident)
      else if length row = 4 then Inr (putUint32 ident)
      else if length row = 8 then Inr (putUint64 ident)
      else Inl Panic)"

definition getUint32 :: "bytes \<Rightarrow> error + nat" where
  "getUint32 row =
     (if length row = 1 then Inr (unat (row ! 0))
      else if length row = 2 then Inr (be_nat row)
      else if length row = 4 then Inr (be_nat row)
      else if length row = 8 then Inr (be_nat row mod 2 ^ 32)
      else Inl Panic)"

subsection \<open>The cumulative length table\<close>

definition calculateIncarnationPos3 :: "bytes \<Rightarrow> nat \<Rightarrow> nat \<Rightarrow> nat \<Rightarrow> error + nat" where
  "calculateIncarnationPos3 b numOfUint8 numOfUint16 numOfUint32 =
     (if numOfUint32 > 0 then
        (let e = numOfUint8 + numOfUint16 * 2 + numOfUint32 * 4
         in bindE (uintAt 4 b (e - 4)) (\<lambda>v. Inr (v + e)))
      else if numOfUint16 > 0 then
        (let e = numOfUint8 + numOfUint16 * 2
         in bindE (uintAt 2 b (e - 2)) (\<lambda>v. Inr (v + e)))
      else if numOfUint8 > 0 then
        (let e = numOfUint8
         in bindE (indexI b (int e - 1)) (\<lambda>v. Inr (unat v + e)))
      else Inr 0)"

definition findVal :: "bytes \<Rightarrow> bytes \<Rightarrow> int \<Rightarrow> int \<Rightarrow> int \<Rightarrow> int \<Rightarrow> error + bytes" where
  "findVal lenOfVals values i numOfUint8 numOfUint16 numOfUint32 =
     (if i < numOfUint8 then
        bindE (indexI lenOfVals i) (\<lambda>e.
        bindE (if i > 0 then bindE (indexI lenOfVals (i - 1)) (\<lambda>s. Inr (unat s)) else Inr 0) (\<lambda>lenOfValStart.
        slice values lenOfValStart (unat e)))
      else if i < numOfUint8 + numOfUint16 then
        bindE (uintAtI 2 lenOfVals (i * 2 - numOfUint8)) (\<lambda>lenOfValEnd.
        bindE (if i - 1 < numOfUint8
               then bindE (indexI lenOfVals (i - 1)) (\<lambda>s. Inr (unat s))
               else uintAtI 2 lenOfVals ((i - 1) * 2 - numOfUint8)) (\<lambda>lenOfValStart.
        slice values lenOfValStart lenOfValEnd))
      else if i < numOfUint8 + numOfUint16 + numOfUint32 then
        bindE (uintAtI 4 lenOfVals (numOfUint8 + numOfUint16 * 2 + (i - numOfUint8 - numOfUint16) * 4)) (\<lambda>lenOfValEnd.
        bindE (if i - 1 < numOfUint8 + numOfUint16
               then uintAtI 2 lenOfVals ((i - 1) * 2 - numOfUint8)
               else uintAtI 4 lenOfVals (numOfUint8 + numOfUint16 * 2 + (i - 1 - numOfUint8 - numOfUint16) * 4)) (\<lambda>lenOfValStart.
        slice values lenOfValStart lenOfValEnd))
      else Inl Panic)"

subsection \<open>Loops\<close>

text \<open>\<^verbatim>\<open>for i := lo; i < lo + k; i++ { body }\<close>, threading the loop's variables and stopping
  at the first error.\<close>

primrec forFrom :: "nat \<Rightarrow> nat \<Rightarrow> (nat \<Rightarrow> 's \<Rightarrow> error + 's) \<Rightarrow> 's \<Rightarrow> error + 's" where
  "forFrom 0 i body s = Inr s"
| "forFrom (Suc k) i body s = bindE (body i s) (forFrom k (Suc i) body)"

subsection \<open>EncodeStorage\<close>

text \<open>The first loop collects the unique address hashes and the non-default incarnations.
  The Go map \<open>addrHashesMap\<close> is an association list: an entry is added only for an absent
  key, so its length is \<^verbatim>\<open>len(addrHashesMap)\<close>.\<close>

record collectState =
  addrHashesMap :: "(bytes \<times> nat) list"
  nextIDAddrHash :: nat
  addrHashList :: bytes
  notDefaultIncarnationList :: bytes

definition collectStep :: "nat \<Rightarrow> Change \<Rightarrow> collectState \<Rightarrow> error + collectState" where
  "collectStep i c st =
     bindE (slice (Key c) 0 HashLength) (\<lambda>addrHash.
       if map_of (addrHashesMap st) addrHash \<noteq> None then Inr st
       else
         bindE (slice (Key c) HashLength (HashLength + IncarnationLength)) (\<lambda>incb.
           let incarnation = NOT (word_of_nat (be_nat incb) :: 64 word)
           in Inr \<lparr>addrHashesMap = addrHashesMap st @ [(addrHash, nextIDAddrHash st)],
                   nextIDAddrHash = (nextIDAddrHash st + 1) mod 2 ^ 32,
                   addrHashList = addrHashList st @ addrHash,
                   notDefaultIncarnationList =
                     (if incarnation \<noteq> DefaultIncarnation
                      then notDefaultIncarnationList st @ putUint32 i @ putUint64 (unat (NOT incarnation))
                      else notDefaultIncarnationList st)\<rparr>))"

primrec collectLoop :: "nat \<Rightarrow> Change list \<Rightarrow> collectState \<Rightarrow> error + collectState" where
  "collectLoop i [] st = Inr st"
| "collectLoop i (c # cs) st = bindE (collectStep i c st) (collectLoop (Suc i) cs)"

text \<open>The second loop writes one key row, one cumulative length and the value per change.
  \<open>lengthes\<close> holds the table entries only; the three counters that the source writes into
  its first six bytes afterwards are prepended by \<open>encodeSorted\<close>.\<close>

record rowState =
  keys :: bytes
  lengthes :: bytes
  vals :: bytes
  numOfUint8 :: nat
  numOfUint16 :: nat
  numOfUint32 :: nat
  lengthOfValues :: nat

definition rowStep :: "(bytes \<times> nat) list \<Rightarrow> nat \<Rightarrow> Change \<Rightarrow> rowState \<Rightarrow> error + rowState" where
  "rowStep m lenOfAddr c st =
     bindE (slice (Key c) 0 HashLength) (\<lambda>addrHash.
     bindE (writeKeyRow (case map_of m addrHash of None \<Rightarrow> 0 | Some ident \<Rightarrow> ident)
              (replicate lenOfAddr 0)) (\<lambda>idRow.
     bindE (slice (Key c) (IncarnationLength + HashLength) (IncarnationLength + 2 * HashLength)) (\<lambda>keyHash.
       let l = (lengthOfValues st + length (Val c)) mod 2 ^ 32;
           st' = st\<lparr>keys := keys st @ idRow @ keyHash, vals := vals st @ Val c,
                     lengthOfValues := l\<rparr>
       in Inr (if l \<le> 255 then
                 st'\<lparr>numOfUint8 := (numOfUint8 st + 1) mod 2 ^ 16,
                      lengthes := lengthes st @ be_bytes 1 l\<rparr>
               else if l \<le> 65535 then
                 st'\<lparr>numOfUint16 := (numOfUint16 st + 1) mod 2 ^ 16,
                      lengthes := lengthes st @ putUint16 l\<rparr>
               else
                 st'\<lparr>numOfUint32 := (numOfUint32 st + 1) mod 2 ^ 16,
                      lengthes := lengthes st @ putUint32 l\<rparr>))))"

primrec rowLoop :: "(bytes \<times> nat) list \<Rightarrow> nat \<Rightarrow> Change list \<Rightarrow> rowState \<Rightarrow> error + rowState" where
  "rowLoop m lenOfAddr [] st = Inr st"
| "rowLoop m lenOfAddr (c # cs) st = bindE (rowStep m lenOfAddr c st) (rowLoop m lenOfAddr cs)"

definition encodeSorted :: "ChangeSet \<Rightarrow> error + bytes" where
  "encodeSorted s =
     bindE (collectLoop 0 s
              \<lparr>addrHashesMap = [], nextIDAddrHash = 0, addrHashList = [],
               notDefaultIncarnationList = []\<rparr>) (\<lambda>c.
       let lenOfAddr = getNumOfBytesByLen (length (addrHashesMap c))
       in bindE (rowLoop (addrHashesMap c) lenOfAddr s
                   \<lparr>keys = [], lengthes = [], vals = [], numOfUint8 = 0, numOfUint16 = 0,
                    numOfUint32 = 0, lengthOfValues = 0\<rparr>) (\<lambda>r.
            Inr (putUint32 (length s) @ putUint16 (length (addrHashesMap c)) @ addrHashList c
                 @ keys r
                 @ (putUint16 (numOfUint8 r) @ putUint16 (numOfUint16 r) @ putUint16 (numOfUint32 r)
                    @ lengthes r)
                 @ vals r @ notDefaultIncarnationList c)))"

text \<open>\<open>EncodeStorage\<close> sorts its argument in place and returns the bytes: the model returns
  the sorted change-set together with the result.\<close>

definition EncodeStorage :: "ChangeSet \<Rightarrow> ChangeSet \<times> (error + bytes)" where
  "EncodeStorage s = (let s' = sortChanges s in (s', encodeSorted s'))"

subsection \<open>DecodeStorage\<close>

text \<open>The map \<open>addMap\<close> has the keys \<open>0 .. dictLen - 1\<close>: it is the list of its values, and
  a lookup outside it gives \<^verbatim>\<open>nil\<close>, of which \<^verbatim>\<open>copy\<close> copies nothing.\<close>

definition readDict :: "bytes \<Rightarrow> nat \<Rightarrow> error + bytes list" where
  "readDict b dictLen =
     forFrom dictLen 0 (\<lambda>i m.
       bindE (slice b (4 + 2 + i * HashLength) (4 + 2 + i * HashLength + HashLength)) (\<lambda>h.
         Inr (m @ [h]))) []"

definition lookupAddr :: "bytes list \<Rightarrow> nat \<Rightarrow> bytes" where
  "lookupAddr m addrIdx = (if addrIdx < length m then m ! addrIdx else [])"

text \<open>\<^verbatim>\<open>copy(dst, src)\<close> for \<^verbatim>\<open>len(src) <= len(dst)\<close>.\<close>

definition copyInto :: "bytes \<Rightarrow> bytes \<Rightarrow> bytes" where
  "copyInto dst src = take (length dst) src @ drop (length src) dst"

text \<open>The trailing records: \<^verbatim>\<open>for i := incarnationPosition; i < len(b); i += 12\<close>, entered
  only when the region's length is a multiple of 12.\<close>

definition readIncarnations :: "bytes \<Rightarrow> nat \<Rightarrow> error + (nat \<rightharpoonup> 64 word)" where
  "readIncarnations b incarnationPosition =
     forFrom ((length b - incarnationPosition) div 12) 0 (\<lambda>j m.
       let i = incarnationPosition + 12 * j
       in bindE (uintAt 4 b i) (\<lambda>ident.
          bindE (uintAt 8 b (i + 4)) (\<lambda>v.
            Inr (m(ident \<mapsto> NOT (word_of_nat v)))))) Map.empty"

definition incarnationBytes :: "(nat \<rightharpoonup> 64 word) \<Rightarrow> nat \<Rightarrow> bytes" where
  "incarnationBytes notDefaultIncarnation addrIdx =
     (case notDefaultIncarnation addrIdx of
        Some inc \<Rightarrow> putUint64 (unat (NOT inc))
      | None \<Rightarrow> putUint64 (unat (NOT DefaultIncarnation)))"

definition decodeElem ::
  "bytes \<Rightarrow> bytes list \<Rightarrow> (nat \<rightharpoonup> 64 word) \<Rightarrow> nat \<Rightarrow> nat \<Rightarrow> nat \<Rightarrow> nat \<Rightarrow> nat \<Rightarrow> nat \<Rightarrow> nat \<Rightarrow> nat
     \<Rightarrow> error + Change" where
  "decodeElem b addMap notDefaultIncarnation elementStart lenOfAddHash lenOfValsPos valuesPos
     n8 n16 n32 i =
     (let elem = elementStart + i * (lenOfAddHash + HashLength)
      in bindE (slice b elem (elem + lenOfAddHash)) (\<lambda>row.
         bindE (getUint32 row) (\<lambda>addrIdx.
         bindE (slice b (elem + lenOfAddHash) (elem + lenOfAddHash + HashLength)) (\<lambda>keyHash.
         bindE (slice b lenOfValsPos valuesPos) (\<lambda>lenOfVals.
         bindE (sliceFrom b valuesPos) (\<lambda>values.
         bindE (findVal lenOfVals values (int i) (int n8) (int n16) (int n32)) (\<lambda>v.
           Inr \<lparr>Key = copyInto (replicate HashLength 0) (lookupAddr addMap addrIdx)
                      @ incarnationBytes notDefaultIncarnation addrIdx @ keyHash,
                Val = v\<rparr>)))))))"

definition DecodeStorage :: "bytes \<Rightarrow> error + ChangeSet" where
  "DecodeStorage b =
     (if length b = 0 then Inr []
      else if length b < 4 then Inl DecodeError
      else
        bindE (uintAt 4 b 0) (\<lambda>numOfElements.
        if numOfElements = 0 then Inr []
        else
          bindE (uintAt 2 b 4) (\<lambda>dictLen.
          bindE (readDict b dictLen) (\<lambda>addMap.
          let lenOfValsPos0 = 4 + 2 + dictLen * HashLength
                + numOfElements * (getNumOfBytesByLen dictLen + HashLength)
          in bindE (uintAt 2 b lenOfValsPos0) (\<lambda>n8.
             bindE (uintAt 2 b (lenOfValsPos0 + 2)) (\<lambda>n16.
             bindE (uintAt 2 b (lenOfValsPos0 + 4)) (\<lambda>n32.
             let lenOfValsPos = lenOfValsPos0 + 3 * 2;
                 valuesPos = lenOfValsPos + n8 + n16 * 2 + n32 * 4
             in bindE (sliceFrom b lenOfValsPos) (\<lambda>rest.
                bindE (calculateIncarnationPos3 rest n8 n16 n32) (\<lambda>p.
                let incarnationPosition = lenOfValsPos + p
                in bindE (if length b > incarnationPosition
                          then (if (length b - incarnationPosition) mod 12 \<noteq> 0
                                then Inl DecodeError
                                else readIncarnations b incarnationPosition)
                          else Inr Map.empty) (\<lambda>notDefaultIncarnation.
                   let elementStart = 4 + 2 + dictLen * HashLength;
                       lenOfAddHash = getNumOfBytesByLen (length addMap)
                   in forFrom numOfElements 0 (\<lambda>i h.
                        bindE (decodeElem b addMap notDefaultIncarnation elementStart lenOfAddHash
                                 lenOfValsPos valuesPos n8 n16 n32 i) (\<lambda>c. Inr (h @ [c]))) []))))))))))"

subsection \<open>StorageChangeSetBytes: Walk and Find\<close>



text \<open>\<open>Find\<close> returns a pair (value, error): \<open>Inr None\<close> is \<^verbatim>\<open>(nil, nil)\<close>, \<open>Inr (Some v)\<close> is
  \<^verbatim>\<open>(v, nil)\<close> and \<open>Inl e\<close> is \<^verbatim>\<open>(nil, e)\<close>.  Both loops of the source leave early: the first
  with \<^verbatim>\<open>break\<close> at the first matching address hash, the second with \<^verbatim>\<open>return\<close> at the first
  matching row.\<close>

primrec findAddr :: "bytes \<Rightarrow> bytes \<Rightarrow> nat \<Rightarrow> nat \<Rightarrow> error + nat option" where
  "findAddr b addrHash 0 i = Inr None"
| "findAddr b addrHash (Suc k) i =
     (let elemStart = 4 + 2 + i * HashLength
      in bindE (slice b elemStart (elemStart + HashLength)) (\<lambda>h.
           if addrHash = h then Inr (Some i) else findAddr b addrHash k (Suc i)))"

primrec findRow ::
  "bytes \<Rightarrow> bytes \<Rightarrow> bytes \<Rightarrow> nat \<Rightarrow> nat \<Rightarrow> nat \<Rightarrow> nat \<Rightarrow> nat \<Rightarrow> nat \<Rightarrow> nat \<Rightarrow> nat \<Rightarrow> nat
     \<Rightarrow> error + bytes option" where
  "findRow b encodedAddHashID keyHash numOfUniqueItems elemLength lenOfValsPos valuesPos
     n8 n16 n32 0 i = Inl NotFound"
| "findRow b encodedAddHashID keyHash numOfUniqueItems elemLength lenOfValsPos valuesPos
     n8 n16 n32 (Suc k) i =
     (let elemStart = 4 + 2 + numOfUniqueItems * HashLength + i * (elemLength + HashLength)
      in bindE (slice b elemStart (elemStart + elemLength)) (\<lambda>row.
           if encodedAddHashID \<noteq> row then
             findRow b encodedAddHashID keyHash numOfUniqueItems elemLength lenOfValsPos valuesPos
               n8 n16 n32 k (Suc i)
           else
             bindE (slice b (elemStart + elemLength) (elemStart + elemLength + HashLength)) (\<lambda>kh.
               if keyHash \<noteq> kh then
                 findRow b encodedAddHashID keyHash numOfUniqueItems elemLength lenOfValsPos
                   valuesPos n8 n16 n32 k (Suc i)
               else
                 bindE (slice b lenOfValsPos valuesPos) (\<lambda>lenOfVals.
                 bindE (sliceFrom b valuesPos) (\<lambda>values.
                 bindE (findVal lenOfVals values (int i) (int n8) (int n16) (int n32)) (\<lambda>v.
                   Inr (Some v)))))))"

definition Find :: "bytes \<Rightarrow> bytes \<Rightarrow> bytes \<Rightarrow> error + bytes option" where
  "Find b addrHash keyHash =
     (if length b = 0 then Inr None
      else if length b < 8 then Inl DecodeError
      else
        bindE (uintAt 4 b 0) (\<lambda>numOfItems.
        if numOfItems = 0 then Inr None
        else
          bindE (uintAt 2 b 4) (\<lambda>numOfUniqueItems.
          bindE (findAddr b addrHash numOfUniqueItems 0) (\<lambda>found.
          case found of
            None \<Rightarrow> Inl NotFound
          | Some addHashID \<Rightarrow>
              (let lenOfValsPos0 = 4 + 2 + numOfUniqueItems * HashLength
                     + numOfItems * (getNumOfBytesByLen numOfUniqueItems + HashLength)
               in bindE (uintAt 2 b lenOfValsPos0) (\<lambda>n8.
                  bindE (uintAt 2 b (lenOfValsPos0 + 2)) (\<lambda>n16.
                  bindE (uintAt 2 b (lenOfValsPos0 + 2 * 2)) (\<lambda>n32.
                  let lenOfValsPos = lenOfValsPos0 + 2 * 3;
                      valuesPos = lenOfValsPos + n8 + n16 * 2 + n32 * 4;
                      elemLength = getNumOfBytesByLen numOfUniqueItems
                  in bindE (writeKeyRow addHashID (replicate elemLength 0)) (\<lambda>encodedAddHashID.
                       findRow b encodedAddHashID keyHash numOfUniqueItems elemLength lenOfValsPos
                         valuesPos n8 n16 n32 numOfItems 0)))))))))"

subsection \<open>The width the specification asks for\<close>

text \<open>The specification's words for the dictionary index width: the minimum of 1, 2, 4 and 8
  bytes that is sufficient to represent \<open>N - 1\<close>.\<close>

definition minWidthFor :: "nat \<Rightarrow> nat" where
  "minWidthFor N =
     (if N - 1 < 256 ^ 1 then 1 else if N - 1 < 256 ^ 2 then 2
      else if N - 1 < 256 ^ 4 then 4 else 8)"

section \<open>The history index\<close>

subsection \<open>Index generation\<close>

text \<open>Modelled from the spec: the type \<^verbatim>\<open>dbutils.HistoryIndexBytes\<close> (its \<^verbatim>\<open>NewHistoryIndex\<close>,
  \<^verbatim>\<open>Append\<close> and byte layout) and the database behind \<^verbatim>\<open>GetIndexChunk\<close> are not in the files
  at hand.  A history index chunk is the ascending list of block numbers it holds, \<open>Append\<close>
  adds one block number at its end, and a new index is empty.  The encoded length
  \<^verbatim>\<open>len(*index)\<close> of a chunk is the parameter \<open>lenOf\<close>, and the database lookup is the
  parameter \<open>getIndexChunk\<close>, whose error \<open>NotFound\<close> is \<^verbatim>\<open>ErrKeyNotFound\<close>.\<close>

definition maxChunkSize :: nat where "maxChunkSize = 1000"

type_synonym HistoryIndex = "64 word list"






subsection \<open>As-of queries\<close>

text \<open>Modelled from the spec: \<^verbatim>\<open>GetAsOf\<close> and the mutation writer (\<^verbatim>\<open>UpdateAccountData\<close>,
  \<^verbatim>\<open>WriteChangeSets\<close>, \<^verbatim>\<open>WriteHistory\<close>) are not in the files at hand; only the test that
  calls them is.  The store holds the current-state table, the chunks of every key's
  history index in ascending order, and one change-set of pre-images per block.
  \<open>GetAsOf\<close> follows section 4.4 of the specification: seek the chunk covering the block,
  binary-search it for the smallest recorded block number not below the queried one, return
  the pre-image recorded in that block's change-set (its absence is a structural error), and
  fall back to the current-state table when the index has no such entry.  \<open>writeBlock\<close>
  commits one mutation of one key at a block: the pre-image goes into the block's
  change-set, the block number is appended to the key's open chunk (a new chunk is started
  first if the open one would exceed the budget), and the new value becomes current.\<close>

record ('k, 'v) HistoryDB =
  currentTable :: "'k \<rightharpoonup> 'v"
  historyIndex :: "'k \<Rightarrow> HistoryIndex list"
  changeSets :: "64 word \<rightharpoonup> ('k \<rightharpoonup> 'v)"

function searchFrom :: "HistoryIndex \<Rightarrow> 64 word \<Rightarrow> nat \<Rightarrow> nat \<Rightarrow> nat" where
  "searchFrom chunk block lo hi =
     (if lo < hi then
        (let mid = (lo + hi) div 2
         in if block \<le> chunk ! mid then searchFrom chunk block lo mid
            else searchFrom chunk block (mid + 1) hi)
      else lo)"
  by pat_completeness auto
termination
  by (relation "measure (\<lambda>(chunk, block, lo, hi). hi - lo)") auto

declare searchFrom.simps [simp del]

definition searchChunk :: "HistoryIndex \<Rightarrow> 64 word \<Rightarrow> 64 word option" where
  "searchChunk chunk block =
     (let i = searchFrom chunk block 0 (length chunk)
      in if i < length chunk then Some (chunk ! i) else None)"

definition seekChunk :: "HistoryIndex list \<Rightarrow> 64 word \<Rightarrow> HistoryIndex option" where
  "seekChunk chunks block = find (\<lambda>c. c \<noteq> [] \<and> block \<le> last c) chunks"

definition preImageAt :: "('k, 'v) HistoryDB \<Rightarrow> 'k \<Rightarrow> 64 word \<Rightarrow> error + 'v" where
  "preImageAt db key b' =
     (case changeSets db b' of
        None \<Rightarrow> Inl DecodeError
      | Some cs \<Rightarrow> (case cs key of None \<Rightarrow> Inl DecodeError | Some v \<Rightarrow> Inr v))"

definition currentValue :: "('k, 'v) HistoryDB \<Rightarrow> 'k \<Rightarrow> error + 'v" where
  "currentValue db key = (case currentTable db key of None \<Rightarrow> Inl NotFound | Some v \<Rightarrow> Inr v)"

definition GetAsOf :: "('k, 'v) HistoryDB \<Rightarrow> 'k \<Rightarrow> 64 word \<Rightarrow> error + 'v" where
  "GetAsOf db key block =
     (case (case seekChunk (historyIndex db key) block of
              None \<Rightarrow> None
            | Some chunk \<Rightarrow> searchChunk chunk block) of
        Some b' \<Rightarrow> preImageAt db key b'
      | None \<Rightarrow> currentValue db key)"

definition appendIndex :: "(HistoryIndex \<Rightarrow> nat) \<Rightarrow> HistoryIndex list \<Rightarrow> 64 word \<Rightarrow> HistoryIndex list" where
  "appendIndex lenOf chunks blockNum =
     (if chunks = [] then [[blockNum]]
      else if lenOf (last chunks @ [blockNum]) > maxChunkSize then chunks @ [[blockNum]]
      else butlast chunks @ [last chunks @ [blockNum]])"

definition writeBlock ::
  "(HistoryIndex \<Rightarrow> nat) \<Rightarrow> 64 word \<Rightarrow> 'k \<Rightarrow> 'v \<Rightarrow> 'v \<Rightarrow> ('k, 'v) HistoryDB \<Rightarrow> ('k, 'v) HistoryDB" where
  "writeBlock lenOf blockNr key original new db =
     db\<lparr>changeSets := (changeSets db)(blockNr \<mapsto>
            (case changeSets db blockNr of None \<Rightarrow> Map.empty | Some cs \<Rightarrow> cs)(key \<mapsto> original)),
        historyIndex := (historyIndex db)(key := appendIndex lenOf (historyIndex db key) blockNr),
        currentTable := (currentTable db)(key \<mapsto> new)\<rparr>"

definition emptyDB :: "('k, 'v) HistoryDB" where
  "emptyDB = \<lparr>currentTable = Map.empty, historyIndex = (\<lambda>k. []), changeSets = Map.empty\<rparr>"


text \<open>The scenario of \<^verbatim>\<open>TestMutation_GetAsOf\<close>: the account is written at block 0 (from
  the empty account to nonce 1), at block 2 (from nonce 1 to nonce 3) and at block 4 (from
  nonce 3 to its final value).\<close>

definition scenarioDB :: "(HistoryIndex \<Rightarrow> nat) \<Rightarrow> 'k \<Rightarrow> 'v \<Rightarrow> 'v \<Rightarrow> 'v \<Rightarrow> 'v \<Rightarrow> ('k, 'v) HistoryDB" where
  "scenarioDB lenOf k emptyAccount acc2 acc4 acc =
     writeBlock lenOf 4 k acc4 acc
       (writeBlock lenOf 2 k acc2 acc4
         (writeBlock lenOf 0 k emptyAccount acc2 emptyDB))"

subsection \<open>The trailing region the specification describes\<close>

text \<open>The layout of section 4.1, read off an arbitrary byte string: the element count, the
  dictionary size \<open>d\<close>, \<open>d\<close> address hashes, one row of index and key hash per element, the
  three bucket counters, the cumulative length table, as many value bytes as the last
  cumulative entry says, and then the trailing incarnation region.  The region is defined
  when all of that lies within the input.\<close>

definition lastCumulative :: "bytes \<Rightarrow> nat \<Rightarrow> nat \<Rightarrow> nat \<Rightarrow> nat" where
  "lastCumulative table n8 n16 n32 =
     (if n32 > 0 then be_nat (take 4 (drop (n8 + n16 * 2 + n32 * 4 - 4) table))
      else if n16 > 0 then be_nat (take 2 (drop (n8 + n16 * 2 - 2) table))
      else if n8 > 0 then unat (table ! (n8 - 1))
      else 0)"



section \<open>Properties\<close>

subsection \<open>Width selection\<close>

lemma minWidthFor_Min:
  assumes "N - 1 < 256 ^ 8"
  shows "minWidthFor N = Min {w \<in> {1, 2, 4, 8}. N - 1 < 256 ^ w}"
proof -
  let ?S = "{w \<in> {1, 2, 4, 8::nat}. N - 1 < 256 ^ w}"
  have fin: "finite ?S" by simp
  have mem: "minWidthFor N \<in> ?S"
    using assms by (auto simp: minWidthFor_def)
  have le: "\<And>w. w \<in> ?S \<Longrightarrow> minWidthFor N \<le> w"
    by (auto simp: minWidthFor_def)
  show ?thesis
    using fin mem le by (metis (no_types, lifting) Min_eqI)
qed

text \<open>Claim C6, as stated, fails: for 255 distinct address hashes the largest dictionary
  index is 254, which one byte represents, and \<open>getNumOfBytesByLen\<close> chooses two bytes.\<close>

theorem getNumOfBytesByLen_not_minimal:
  "\<not> (\<forall>N\<ge>1. getNumOfBytesByLen N = minWidthFor N)"
proof
  assume "\<forall>N\<ge>1. getNumOfBytesByLen N = minWidthFor N"
  then have "getNumOfBytesByLen 255 = minWidthFor 255" by simp
  then show False by (simp add: getNumOfBytesByLen_def minWidthFor_def)
qed

text \<open>Claim C6, amended: for every number \<open>N \<ge> 1\<close> of distinct address hashes (a Go \<open>int\<close>),
  \<open>getNumOfBytesByLen N\<close> is 1 below 255, 2 below 65535, 4 below 4294967295 and 8 otherwise;
  that width always suffices to represent \<open>N - 1\<close>, and it is the minimum sufficient width
  of 1, 2, 4, 8 except at the six values 255, 256, 65535, 65536, 4294967295 and 4294967296,
  where it is twice the minimum.\<close>

theorem getNumOfBytesByLen_width:
  assumes "1 \<le> N" and "N < 2 ^ 63"
  shows "getNumOfBytesByLen N =
           (if N < 255 then 1 else if N < 65535 then 2 else if N < 4294967295 then 4 else 8)
         \<and> N - 1 < 256 ^ getNumOfBytesByLen N
         \<and> (if N \<in> {255, 256, 65535, 65536, 4294967295, 4294967296}
            then getNumOfBytesByLen N = 2 * minWidthFor N
            else getNumOfBytesByLen N = minWidthFor N)"
  using assms by (auto simp: getNumOfBytesByLen_def minWidthFor_def)

theorem getNumOfBytesByLen_width_witness:
  "(1::nat) \<le> 300 \<and> (300::nat) < 2 ^ 63 \<and> getNumOfBytesByLen 300 = 2 \<and> minWidthFor 300 = 2
   \<and> getNumOfBytesByLen 256 = 2 \<and> minWidthFor 256 = 1"
  using getNumOfBytesByLen_width [of 300] getNumOfBytesByLen_width [of 256]
  by (simp add: minWidthFor_def)

subsection \<open>Widths outside 1, 2, 4, 8 and malformed input\<close>

text \<open>Claim C7, as stated, fails: on a row of three bytes \<open>writeKeyRow\<close> and \<open>getUint32\<close>
  panic, \<open>findVal\<close> panics on an index outside its three buckets, and the four input bytes
  \<open>00 00 00 01\<close> make \<open>DecodeStorage\<close> panic on the slice expression that reads the
  dictionary length.\<close>

theorem width_helpers_panic_example:
  "writeKeyRow 0 [0, 0, 0] = Inl Panic \<and> getUint32 [0, 0, 0] = Inl Panic
   \<and> findVal [] [] 0 0 0 0 = Inl Panic \<and> DecodeStorage [0, 0, 0, 1] = Inl Panic"
  by (simp add: writeKeyRow_def getUint32_def findVal_def DecodeStorage_def uintAt_def slice_def
      bindE_def be_nat_def)

text \<open>Claim C7, amended: \<open>writeKeyRow\<close> and \<open>getUint32\<close> accept exactly the widths 1, 2, 4
  and 8 and panic on every other width, \<open>findVal\<close> panics on every index outside its three
  buckets, and none of them returns a decode error; \<open>DecodeStorage\<close> returns a decode error
  on an input of one to three bytes.\<close>

theorem width_helpers_panic:
  "(writeKeyRow ident row = Inl Panic \<longleftrightarrow> length row \<notin> {1, 2, 4, 8})
   \<and> (getUint32 row = Inl Panic \<longleftrightarrow> length row \<notin> {1, 2, 4, 8})
   \<and> writeKeyRow ident row \<noteq> Inl DecodeError \<and> getUint32 row \<noteq> Inl DecodeError
   \<and> (0 \<le> n8 \<and> 0 \<le> n16 \<and> 0 \<le> n32 \<and> n8 + n16 + n32 \<le> i
        \<longrightarrow> findVal lenOfVals values i n8 n16 n32 = Inl Panic)
   \<and> (0 < length b \<and> length b < 4 \<longrightarrow> DecodeStorage b = Inl DecodeError)"
  by (auto simp: writeKeyRow_def getUint32_def findVal_def DecodeStorage_def)

theorem width_helpers_panic_witness:
  "writeKeyRow 7 [0, 0, 0] = Inl Panic \<and> getUint32 [0, 0, 0] = Inl Panic
   \<and> findVal [1] [9] 1 1 0 0 = Inl Panic \<and> DecodeStorage [0, 0, 1] = Inl DecodeError"
  using width_helpers_panic [of 7 "[0, 0, 0]" 1 0 0 1 "[1]" "[9]" "[0, 0, 1]"]
  by simp

subsection \<open>findVal across the width buckets\<close>

text \<open>Claim C3 at two encoded change-sets whose uint16 bucket is empty.  Values of 1 and
  65536 bytes give the table \<open>01 | 00 01 00 01\<close>: for the second element \<open>findVal\<close> reads its
  start at offset \<open>(i - 1) * 2 - numOfUint8 = -1\<close> and panics.  Values of 1, 1 and 65536 bytes
  give the table \<open>01 02 | 00 01 00 02\<close>: for the third element it reads the two uint8 entries
  as one uint16 and returns the bytes from 258 instead of the bytes from 2.\<close>

theorem findVal_uint8_then_uint32:
  "findVal [1, 0, 1, 0, 1] values 1 1 0 1 = Inl Panic
   \<and> findVal [1, 2, 0, 1, 0, 2] values 2 2 0 1 = slice values 258 65538"
  by (simp add: findVal_def uintAtI_def sliceI_def slice_def bindE_def be_nat_def)

subsection \<open>The error monad\<close>


lemma bindE_Inl [simp]: "bindE (Inl e) f = Inl e"
  by (simp add: bindE_def)


subsection \<open>The encoding does not depend on the order of the changes\<close>

lemma sort_key_filter_single:
  "distinct (map f zs) \<Longrightarrow> k \<in> set zs \<Longrightarrow> filter (\<lambda>x. f k = f x) zs = [k]"
proof (induction zs)
  case Nil
  then show ?case by simp
next
  case (Cons z zs)
  show ?case
  proof (cases "k = z")
    case True
    have "filter (\<lambda>x. f z = f x) zs = []"
      using Cons.prems(1) by (auto simp: filter_empty_conv)
    with True show ?thesis by simp
  next
    case False
    with Cons.prems have kin: "k \<in> set zs" by simp
    then have "f k \<noteq> f z" using Cons.prems(1) by (metis distinct.simps(2) image_eqI list.simps(9) set_map)
    with Cons.IH kin Cons.prems(1) show ?thesis by simp
  qed
qed

lemma sort_key_unique:
  assumes "mset xs = mset ys" and "distinct (map f xs)"
  shows "sort_key f xs = sort_key f ys"
proof -
  have dy: "distinct (map f ys)"
  proof -
    have "mset (map f xs) = mset (map f ys)" using assms(1) by (metis mset_map)
    then show ?thesis using assms(2) by (metis mset_eq_imp_distinct_iff)
  qed
  have sx: "set xs = set ys" using assms(1) by (metis mset_eq_setD)
  have "sort_key f ys = sort_key f xs"
  proof (rule properties_for_sort_key)
    show "mset (sort_key f xs) = mset ys" using assms(1) by simp
    show "sorted (map f (sort_key f xs))" by simp
    fix k assume "k \<in> set (sort_key f xs)"
    then have kx: "k \<in> set xs" by simp
    have "filter (\<lambda>x. f k = f x) (sort_key f xs) = [k]"
      by (rule sort_key_filter_single) (use assms(2) kx in \<open>simp_all add: distinct_map\<close>)
    moreover have "filter (\<lambda>x. f k = f x) ys = [k]"
      by (rule sort_key_filter_single) (use dy kx sx in simp_all)
    ultimately show "filter (\<lambda>x. f k = f x) (sort_key f xs) = filter (\<lambda>x. f k = f x) ys"
      by simp
  qed
  then show ?thesis by simp
qed

text \<open>Claim C10: \<open>EncodeStorage\<close> first sorts the change-set (the sorted change-set is what
  it leaves in place, and the bytes are computed from it alone), so two change-sets with
  the same changes and unique keys, in any order, are encoded to the same result.\<close>

theorem EncodeStorage_canonical:
  assumes "mset s1 = mset s2" and "distinct (map Key s1)"
  shows "EncodeStorage s1 = EncodeStorage s2
         \<and> fst (EncodeStorage s1) = sortChanges s1
         \<and> sorted (map Key (fst (EncodeStorage s1)))
         \<and> mset (fst (EncodeStorage s1)) = mset s1
         \<and> snd (EncodeStorage s1) = encodeSorted (sortChanges s1)"
  using sort_key_unique [OF assms] assms(1)
  by (simp add: EncodeStorage_def sortChanges_def Let_def)


theorem EncodeStorage_canonical_witness:
  "EncodeStorage [\<lparr>Key = replicate 71 0 @ [2], Val = [7]\<rparr>, \<lparr>Key = replicate 71 0 @ [1], Val = []\<rparr>]
     = EncodeStorage [\<lparr>Key = replicate 71 0 @ [1], Val = []\<rparr>, \<lparr>Key = replicate 71 0 @ [2], Val = [7]\<rparr>]"
  using EncodeStorage_canonical
    [of "[\<lparr>Key = replicate 71 0 @ [2], Val = [7]\<rparr>, \<lparr>Key = replicate 71 0 @ [1], Val = []\<rparr>]"
      "[\<lparr>Key = replicate 71 0 @ [1], Val = []\<rparr>, \<lparr>Key = replicate 71 0 @ [2], Val = [7]\<rparr>]"]
  by simp

subsection \<open>Index chunking\<close>













subsection \<open>As-of queries\<close>

lemma searchFrom_correct:
  "sorted chunk \<Longrightarrow> lo \<le> hi \<Longrightarrow> hi \<le> length chunk \<Longrightarrow> (\<forall>j<lo. chunk ! j < block)
    \<Longrightarrow> (\<forall>j. hi \<le> j \<and> j < length chunk \<longrightarrow> block \<le> chunk ! j)
    \<Longrightarrow> lo \<le> searchFrom chunk block lo hi \<and> searchFrom chunk block lo hi \<le> hi
        \<and> (\<forall>j. j < searchFrom chunk block lo hi \<longrightarrow> chunk ! j < block)
        \<and> (\<forall>j. searchFrom chunk block lo hi \<le> j \<and> j < length chunk \<longrightarrow> block \<le> chunk ! j)"
proof (induction chunk block lo hi rule: searchFrom.induct)
  case (1 chunk block lo hi)
  note sorted = "1.prems"(1)
  show ?case
  proof (cases "lo < hi")
    case False
    then have "searchFrom chunk block lo hi = lo" by (subst searchFrom.simps) simp
    with False "1.prems" show ?thesis by auto
  next
    case True
    define mid where "mid = (lo + hi) div 2"
    have mid: "lo \<le> mid" "mid < hi" using True by (auto simp: mid_def)
    show ?thesis
    proof (cases "block \<le> chunk ! mid")
      case le: True
      have eq: "searchFrom chunk block lo hi = searchFrom chunk block lo mid"
        using True le by (subst searchFrom.simps) (simp add: mid_def Let_def)
      have upper: "\<forall>j. mid \<le> j \<and> j < length chunk \<longrightarrow> block \<le> chunk ! j"
      proof (intro allI impI)
        fix j assume j: "mid \<le> j \<and> j < length chunk"
        then have "chunk ! mid \<le> chunk ! j" using sorted by (simp add: sorted_nth_mono)
        with le show "block \<le> chunk ! j" by simp
      qed
      have ih: "lo \<le> searchFrom chunk block lo mid \<and> searchFrom chunk block lo mid \<le> mid
        \<and> (\<forall>j. j < searchFrom chunk block lo mid \<longrightarrow> chunk ! j < block)
        \<and> (\<forall>j. searchFrom chunk block lo mid \<le> j \<and> j < length chunk \<longrightarrow> block \<le> chunk ! j)"
        using "1.IH"(1) [OF True mid_def le sorted mid(1) _ "1.prems"(4) upper] mid(2) "1.prems"(3)
        by simp
      show ?thesis using ih mid(2) by (simp add: eq)
    next
      case gt: False
      have eq: "searchFrom chunk block lo hi = searchFrom chunk block (mid + 1) hi"
        using True gt by (subst searchFrom.simps) (simp add: mid_def Let_def)
      have lower: "\<forall>j<mid + 1. chunk ! j < block"
      proof (intro allI impI)
        fix j assume j: "j < mid + 1"
        have "mid < length chunk" using mid(2) "1.prems"(3) by simp
        then have "chunk ! j \<le> chunk ! mid" using sorted j by (simp add: sorted_nth_mono)
        with gt show "chunk ! j < block" by simp
      qed
      have ih: "mid + 1 \<le> searchFrom chunk block (mid + 1) hi \<and> searchFrom chunk block (mid + 1) hi \<le> hi
        \<and> (\<forall>j. j < searchFrom chunk block (mid + 1) hi \<longrightarrow> chunk ! j < block)
        \<and> (\<forall>j. searchFrom chunk block (mid + 1) hi \<le> j \<and> j < length chunk \<longrightarrow> block \<le> chunk ! j)"
        using "1.IH"(2) [OF True mid_def gt sorted _ "1.prems"(3) lower "1.prems"(5)] mid(2)
        by simp
      show ?thesis using ih mid(1) by (simp add: eq)
    qed
  qed
qed

lemma searchChunk_find:
  assumes "sorted chunk"
  shows "searchChunk chunk block = find (\<lambda>b. block \<le> b) chunk"
proof -
  define i where "i = searchFrom chunk block 0 (length chunk)"
  have vac: "\<forall>j. length chunk \<le> j \<and> j < length chunk \<longrightarrow> block \<le> chunk ! j"
    and vac0: "\<forall>j<0. chunk ! j < block"
    by auto
  have c: "i \<le> length chunk" "\<forall>j<i. chunk ! j < block"
    "\<forall>j. i \<le> j \<and> j < length chunk \<longrightarrow> block \<le> chunk ! j"
    using searchFrom_correct [OF assms le0 le_refl vac0 vac] by (auto simp: i_def)
  show ?thesis
  proof (cases "i < length chunk")
    case True
    have "find (\<lambda>b. block \<le> b) chunk = Some (chunk ! i)"
      unfolding find_Some_iff using True c by (intro exI [of _ i]) auto
    with True show ?thesis by (simp add: searchChunk_def i_def [symmetric])
  next
    case False
    then have "i = length chunk" using c(1) by simp
    then have "\<forall>x \<in> set chunk. \<not> block \<le> x"
      using c(2) by (metis in_set_conv_nth not_le)
    then have "find (\<lambda>b. block \<le> b) chunk = None"
      by (simp add: find_None_iff)
    with False show ?thesis by (simp add: searchChunk_def i_def [symmetric])
  qed
qed

lemma GetAsOf_single_chunk:
  assumes "historyIndex db key = [chunk]" and "sorted chunk"
  shows "GetAsOf db key block =
    (case find (\<lambda>b. block \<le> b) chunk of
       Some b' \<Rightarrow> preImageAt db key b'
     | None \<Rightarrow> currentValue db key)"
proof (cases "chunk \<noteq> [] \<and> block \<le> last chunk")
  case True
  then show ?thesis
    using assms by (simp add: GetAsOf_def seekChunk_def searchChunk_find)
next
  case False
  have "\<forall>x \<in> set chunk. \<not> block \<le> x"
  proof
    fix x assume x: "x \<in> set chunk"
    then have ne: "chunk \<noteq> []" by auto
    from x obtain j where j: "j < length chunk" "x = chunk ! j" by (auto simp: in_set_conv_nth)
    have "chunk ! j \<le> chunk ! (length chunk - 1)"
      using assms(2) j(1) by (intro sorted_nth_mono) auto
    then have "x \<le> last chunk" using ne j(2) by (simp add: last_conv_nth)
    with False ne show "\<not> block \<le> x" by auto
  qed
  then have "find (\<lambda>b. block \<le> b) chunk = None" by (simp add: find_None_iff)
  with False show ?thesis
    using assms by (auto simp: GetAsOf_def seekChunk_def)
qed

lemma scenarioDB_state:
  assumes "\<forall>xs. length xs \<le> 3 \<longrightarrow> lenOf xs \<le> maxChunkSize"
  shows "historyIndex (scenarioDB lenOf k e a2 a4 a) k = [[0, 2, 4]]"
    and "preImageAt (scenarioDB lenOf k e a2 a4 a) k 2 = Inr a2"
    and "preImageAt (scenarioDB lenOf k e a2 a4 a) k 4 = Inr a4"
    and "currentValue (scenarioDB lenOf k e a2 a4 a) k = Inr a"
proof -
  have l2: "\<not> maxChunkSize < lenOf [0, 2]" and l3: "\<not> maxChunkSize < lenOf [0, 2, 4]"
    using assms by (simp_all add: not_less)
  show "historyIndex (scenarioDB lenOf k e a2 a4 a) k = [[0, 2, 4]]"
    using l2 l3 by (simp add: scenarioDB_def writeBlock_def emptyDB_def appendIndex_def)
  show "preImageAt (scenarioDB lenOf k e a2 a4 a) k 2 = Inr a2"
    by (simp add: scenarioDB_def writeBlock_def emptyDB_def preImageAt_def)
  show "preImageAt (scenarioDB lenOf k e a2 a4 a) k 4 = Inr a4"
    by (simp add: scenarioDB_def writeBlock_def emptyDB_def preImageAt_def)
  show "currentValue (scenarioDB lenOf k e a2 a4 a) k = Inr a"
    by (simp add: scenarioDB_def writeBlock_def emptyDB_def currentValue_def)
qed

text \<open>Claim C2: the account is written at block 0 (to nonce 1), at block 2 (to nonce 3)
  and at block 4 (to its final value), so that nonce 1 is the pre-image recorded with the
  change at block 2 and nonce 3 the one recorded at block 4.  \<open>GetAsOf\<close> returns the nonce 1
  snapshot for the blocks 1 and 2, the nonce 3 snapshot for block 3 and the current value for
  the blocks 5 and 7.  In general, on a key whose index is one sorted chunk, it returns the
  pre-image of the first recorded block number not below the queried one, which the binary
  search finds, and the current-state value when there is none.\<close>

theorem GetAsOf_scenario:
  fixes k :: 'k and acc :: 'v
  assumes "\<forall>xs. length xs \<le> 3 \<longrightarrow> lenOf xs \<le> maxChunkSize"
  shows "GetAsOf (scenarioDB lenOf k emptyAccount acc2 acc4 acc) k 1 = Inr acc2
       \<and> GetAsOf (scenarioDB lenOf k emptyAccount acc2 acc4 acc) k 2 = Inr acc2
       \<and> GetAsOf (scenarioDB lenOf k emptyAccount acc2 acc4 acc) k 3 = Inr acc4
       \<and> GetAsOf (scenarioDB lenOf k emptyAccount acc2 acc4 acc) k 5 = Inr acc
       \<and> GetAsOf (scenarioDB lenOf k emptyAccount acc2 acc4 acc) k 7 = Inr acc
       \<and> (\<forall>(db :: ('k, 'v) HistoryDB) chunk block. historyIndex db k = [chunk] \<and> sorted chunk \<longrightarrow>
            GetAsOf db k block =
              (case find (\<lambda>b. block \<le> b) chunk of
                 Some b' \<Rightarrow> preImageAt db k b'
               | None \<Rightarrow> currentValue db k))"
proof -
  have s: "sorted [0, 2, 4 :: 64 word]" by simp
  note st = scenarioDB_state [OF assms, of k emptyAccount acc2 acc4 acc]
  note g = GetAsOf_single_chunk [OF st(1) s]
  have gen: "\<forall>(db :: ('k, 'v) HistoryDB) chunk block. historyIndex db k = [chunk] \<and> sorted chunk \<longrightarrow>
            GetAsOf db k block =
              (case find (\<lambda>b. block \<le> b) chunk of
                 Some b' \<Rightarrow> preImageAt db k b'
               | None \<Rightarrow> currentValue db k)"
  proof (intro allI impI)
    fix db :: "('k, 'v) HistoryDB" and chunk block
    assume a: "historyIndex db k = [chunk] \<and> sorted chunk"
    show "GetAsOf db k block =
              (case find (\<lambda>b. block \<le> b) chunk of
                 Some b' \<Rightarrow> preImageAt db k b'
               | None \<Rightarrow> currentValue db k)"
      by (rule GetAsOf_single_chunk [OF conjunct1 [OF a] conjunct2 [OF a]])
  qed
  have "GetAsOf (scenarioDB lenOf k emptyAccount acc2 acc4 acc) k 1 = Inr acc2
       \<and> GetAsOf (scenarioDB lenOf k emptyAccount acc2 acc4 acc) k 2 = Inr acc2
       \<and> GetAsOf (scenarioDB lenOf k emptyAccount acc2 acc4 acc) k 3 = Inr acc4
       \<and> GetAsOf (scenarioDB lenOf k emptyAccount acc2 acc4 acc) k 5 = Inr acc
       \<and> GetAsOf (scenarioDB lenOf k emptyAccount acc2 acc4 acc) k 7 = Inr acc"
    by (simp add: g st)
  then show ?thesis using gen by blast
qed

theorem GetAsOf_scenario_witness:
  "GetAsOf (scenarioDB (\<lambda>xs. 8 + 4 * length xs) (0::nat) (0::nat) 1 3 9) 0 1 = Inr 1
   \<and> GetAsOf (scenarioDB (\<lambda>xs. 8 + 4 * length xs) (0::nat) (0::nat) 1 3 9) 0 2 = Inr 1
   \<and> GetAsOf (scenarioDB (\<lambda>xs. 8 + 4 * length xs) (0::nat) (0::nat) 1 3 9) 0 3 = Inr 3
   \<and> GetAsOf (scenarioDB (\<lambda>xs. 8 + 4 * length xs) (0::nat) (0::nat) 1 3 9) 0 5 = Inr 9
   \<and> GetAsOf (scenarioDB (\<lambda>xs. 8 + 4 * length xs) (0::nat) (0::nat) 1 3 9) 0 7 = Inr 9"
  using GetAsOf_scenario [of "\<lambda>xs. 8 + 4 * length xs" "0::nat" "0::nat" 1 3 9]
  by (simp add: maxChunkSize_def)

subsection \<open>Reading the header of an encoded change-set\<close>








lemma lastCumulative_zero [simp]: "lastCumulative table 0 0 0 = 0"
  by (simp add: lastCumulative_def)







end
